theory Spec2Isabelle
  imports Main "HOL-Library.Word" "HOL-Library.AList"
begin

section \<open>JavaScript values and the ArrayBuffer store\<close>

text \<open>
  The module \<^verbatim>\<open>src/lib/isomorphic-ws/isomorphic-ws.ts\<close> handles message payloads whose
  binary forms are references: an ArrayBuffer is an object with identity, and a typed
  array is a window (buffer, byteOffset, byteLength) onto one. The store is the list of
  all ArrayBuffers allocated so far; an address is an index into it and an allocation
  appends, so a new buffer never shares its address with an older one.

  Not modelled: detached and resizable buffers, SharedArrayBuffer, and the engine's limit
  on the size of an allocation (an allocation always succeeds here).
\<close>

type_synonym byte = "8 word"
type_synonym addr = nat
type_synonym heap = "byte list list"

text \<open>
  \<open>NodeBuffer\<close> is Node's \<^verbatim>\<open>Buffer\<close>, a subclass of \<^verbatim>\<open>Uint8Array\<close>;
  \<open>OtherView\<close> stands for every other ArrayBufferView (\<^verbatim>\<open>Uint16Array\<close>,
  \<^verbatim>\<open>DataView\<close>, ...). The normalizer only reads the three fields below, all counted
  in bytes.
\<close>

datatype view_kind = Uint8Array | NodeBuffer | OtherView

datatype array_view =
  ArrayView (kind: view_kind) (buffer: addr) (byteOffset: nat) (byteLength: nat)

datatype js_value =
    JSUndefined
  | JSNull
  | JSBoolean bool
  | JSNumber int
  | JSString string
  | JSBlob "byte list"
  | JSObject
  | JSArrayBuffer addr
  | JSView array_view
  | JSArray "js_value list"

text \<open>
  Thrown values. Each carries its message; the text of the two errors raised by the
  typed-array operations is the engine's and is only indicative here.
\<close>

datatype js_error = Error string | RangeError string | TypeError string

definition buffer_at :: "heap \<Rightarrow> addr \<Rightarrow> byte list" where
  "buffer_at h a = (if a < length h then h ! a else [])"

definition view_bytes :: "heap \<Rightarrow> array_view \<Rightarrow> byte list" where
  "view_bytes h v = take (byteLength v) (drop (byteOffset v) (buffer_at h (buffer v)))"

text \<open>\<^verbatim>\<open>new Uint8Array()\<close>: a view of length 0 on a new, empty buffer.\<close>

definition new_Uint8Array_empty :: "heap \<Rightarrow> heap \<times> array_view" where
  "new_Uint8Array_empty h = (h @ [[]], ArrayView Uint8Array (length h) 0 0)"

text \<open>\<^verbatim>\<open>new Uint8Array(n)\<close>: a view on a new buffer of \<open>n\<close> zero bytes.\<close>

definition new_Uint8Array_length :: "heap \<Rightarrow> nat \<Rightarrow> heap \<times> array_view" where
  "new_Uint8Array_length h n = (h @ [replicate n 0], ArrayView Uint8Array (length h) 0 n)"

text \<open>\<^verbatim>\<open>new Uint8Array(buffer)\<close>: a view on the whole of an existing buffer.\<close>

definition new_Uint8Array_buffer :: "heap \<Rightarrow> addr \<Rightarrow> array_view" where
  "new_Uint8Array_buffer h a = ArrayView Uint8Array a 0 (length (buffer_at h a))"

text \<open>
  \<^verbatim>\<open>new Uint8Array(buffer, byteOffset, length)\<close>: a view on part of an existing buffer;
  the constructor throws a RangeError when the window does not fit the buffer.
\<close>

definition new_Uint8Array_range :: "heap \<Rightarrow> addr \<Rightarrow> nat \<Rightarrow> nat \<Rightarrow> js_error + array_view" where
  "new_Uint8Array_range h a off len =
     (if length (buffer_at h a) < off + len then Inl (RangeError ''Invalid typed array length'')
      else Inr (ArrayView Uint8Array a off len))"

text \<open>
  \<^verbatim>\<open>target.set(source, offset)\<close> for two byte views: the source's bytes are read first
  and then written into the target's buffer from \<open>offset\<close> on; a RangeError when they do
  not fit the target.
\<close>

definition write_bytes :: "byte list \<Rightarrow> nat \<Rightarrow> byte list \<Rightarrow> byte list" where
  "write_bytes bs pos src = take pos bs @ src @ drop (pos + length src) bs"

definition typed_array_set :: "heap \<Rightarrow> array_view \<Rightarrow> array_view \<Rightarrow> nat \<Rightarrow> js_error + heap" where
  "typed_array_set h target source offset =
     (if byteLength target < offset + byteLength source
      then Inl (RangeError ''offset is out of bounds'')
      else Inr (h[buffer target :=
                    write_bytes (buffer_at h (buffer target)) (byteOffset target + offset)
                      (view_bytes h source)]))"

section \<open>Message Normalizer: \<^verbatim>\<open>normalizeNodeMessageData\<close>\<close>

text \<open>
  The callback of \<^verbatim>\<open>data.map\<close> (source lines 145 to 156), in the source's order:
  a \<^verbatim>\<open>Uint8Array\<close> (or subclass) is kept as it is, an ArrayBuffer gets a view on the
  whole of it, any other view gets a byte view on the same window, and everything else
  becomes \<^verbatim>\<open>new Uint8Array()\<close>.
\<close>

fun chunk_to_view :: "heap \<Rightarrow> js_value \<Rightarrow> js_error + heap \<times> array_view" where
  "chunk_to_view h (JSView v) =
     (if kind v = Uint8Array \<or> kind v = NodeBuffer then Inr (h, v)
      else (case new_Uint8Array_range h (buffer v) (byteOffset v) (byteLength v) of
              Inl e \<Rightarrow> Inl e
            | Inr u \<Rightarrow> Inr (h, u)))"
| "chunk_to_view h (JSArrayBuffer a) = Inr (h, new_Uint8Array_buffer h a)"
| "chunk_to_view h _ = Inr (new_Uint8Array_empty h)"

fun map_chunks :: "heap \<Rightarrow> js_value list \<Rightarrow> js_error + heap \<times> array_view list" where
  "map_chunks h [] = Inr (h, [])"
| "map_chunks h (c # cs) =
     (case chunk_to_view h c of
        Inl e \<Rightarrow> Inl e
      | Inr (h1, v) \<Rightarrow>
          (case map_chunks h1 cs of
             Inl e \<Rightarrow> Inl e
           | Inr (h2, vs) \<Rightarrow> Inr (h2, v # vs)))"

text \<open>\<^verbatim>\<open>chunks.reduce((total, chunk) => total + chunk.byteLength, 0)\<close>\<close>

definition total_length :: "array_view list \<Rightarrow> nat" where
  "total_length chunks = foldl (\<lambda>total chunk. total + byteLength chunk) 0 chunks"

text \<open>The \<^verbatim>\<open>for\<close> loop of lines 163 to 166, with its running \<open>offset\<close>.\<close>

fun merge_loop :: "heap \<Rightarrow> array_view \<Rightarrow> array_view list \<Rightarrow> nat \<Rightarrow> js_error + heap" where
  "merge_loop h merged [] offset = Inr h"
| "merge_loop h merged (chunk # chunks) offset =
     (case typed_array_set h merged chunk offset of
        Inl e \<Rightarrow> Inl e
      | Inr h' \<Rightarrow> merge_loop h' merged chunks (offset + byteLength chunk))"

text \<open>
  The normalizer. Its tests run in the source's order: string, ArrayBuffer,
  \<^verbatim>\<open>ArrayBuffer.isView\<close>, \<^verbatim>\<open>Array.isArray\<close>; the test
  \<^verbatim>\<open>data instanceof Uint8Array\<close> of line 169 comes after \<^verbatim>\<open>ArrayBuffer.isView\<close>,
  which every \<^verbatim>\<open>Uint8Array\<close> passes, so no value reaches it.
\<close>

fun normalizeNodeMessageData :: "heap \<Rightarrow> js_value \<Rightarrow> js_error + heap \<times> js_value" where
  "normalizeNodeMessageData h (JSString s) = Inr (h, JSString s)"
| "normalizeNodeMessageData h (JSArrayBuffer a) = Inr (h, JSArrayBuffer a)"
| "normalizeNodeMessageData h (JSView v) =
     (case new_Uint8Array_range h (buffer v) (byteOffset v) (byteLength v) of
        Inl e \<Rightarrow> Inl e
      | Inr u \<Rightarrow> Inr (h, JSView u))"
| "normalizeNodeMessageData h (JSArray data) =
     (case map_chunks h data of
        Inl e \<Rightarrow> Inl e
      | Inr (h1, chunks) \<Rightarrow>
          (case new_Uint8Array_length h1 (total_length chunks) of
             (h2, merged) \<Rightarrow>
               (case merge_loop h2 merged chunks 0 of
                  Inl e \<Rightarrow> Inl e
                | Inr h3 \<Rightarrow> Inr (h3, JSView merged))))"
| "normalizeNodeMessageData h _ =
     (case new_Uint8Array_empty h of (h', v) \<Rightarrow> Inr (h', JSView v))"

subsection \<open>Reading a payload\<close>

text \<open>
  What a caller sees in a value: text, or the bytes of a buffer or of a view's window.
\<close>

datatype payload = Text string | Binary "byte list"

fun payload_of :: "heap \<Rightarrow> js_value \<Rightarrow> payload option" where
  "payload_of h (JSString s) = Some (Text s)"
| "payload_of h (JSArrayBuffer a) = Some (Binary (buffer_at h a))"
| "payload_of h (JSView v) = Some (Binary (view_bytes h v))"
| "payload_of h _ = None"

fun payload_length :: "payload \<Rightarrow> nat" where
  "payload_length (Text s) = length s"
| "payload_length (Binary bs) = length bs"

text \<open>
  References in a value that the program can hold: a buffer reference points into the
  store and a view's window lies inside its buffer. Elements of an array that are arrays
  themselves are not looked into, as the normalizer does not look into them either.
\<close>

definition view_in_heap :: "heap \<Rightarrow> array_view \<Rightarrow> bool" where
  "view_in_heap h v =
     (buffer v < length h \<and> byteOffset v + byteLength v \<le> length (h ! buffer v))"

fun wf_ref :: "heap \<Rightarrow> js_value \<Rightarrow> bool" where
  "wf_ref h (JSArrayBuffer a) = (a < length h)"
| "wf_ref h (JSView v) = view_in_heap h v"
| "wf_ref h _ = True"

fun wf_value :: "heap \<Rightarrow> js_value \<Rightarrow> bool" where
  "wf_value h (JSArray vs) = list_all (wf_ref h) vs"
| "wf_value h v = wf_ref h v"

text \<open>The shapes the normalizer tells apart.\<close>

fun is_string :: "js_value \<Rightarrow> bool" where
  "is_string (JSString s) = True"
| "is_string _ = False"

fun is_ArrayBuffer :: "js_value \<Rightarrow> bool" where
  "is_ArrayBuffer (JSArrayBuffer a) = True"
| "is_ArrayBuffer _ = False"

fun isView :: "js_value \<Rightarrow> bool" where
  "isView (JSView v) = True"
| "isView _ = False"

fun isArray :: "js_value \<Rightarrow> bool" where
  "isArray (JSArray vs) = True"
| "isArray _ = False"

text \<open>
  The bytes a chunk of an array stands for, and its length as the source reads it
  (\<^verbatim>\<open>byteLength\<close>): a view's window, a buffer's whole content, nothing otherwise.
\<close>

definition is_binary_chunk :: "js_value \<Rightarrow> bool" where
  "is_binary_chunk c = (is_ArrayBuffer c \<or> isView c)"

fun chunk_bytes :: "heap \<Rightarrow> js_value \<Rightarrow> byte list" where
  "chunk_bytes h (JSView v) = view_bytes h v"
| "chunk_bytes h (JSArrayBuffer a) = buffer_at h a"
| "chunk_bytes h _ = []"

fun chunk_length :: "heap \<Rightarrow> js_value \<Rightarrow> nat" where
  "chunk_length h (JSView v) = byteLength v"
| "chunk_length h (JSArrayBuffer a) = length (buffer_at h a)"
| "chunk_length h _ = 0"

definition unrecognized :: "js_value list \<Rightarrow> nat" where
  "unrecognized cs = length (filter (\<lambda>c. \<not> is_binary_chunk c) cs)"

section \<open>Emitter Bridge: \<^verbatim>\<open>wrapNodeWebSocket\<close>\<close>

text \<open>
  A listener is a caller's callback, known by an identifier; what it is called with is
  recorded. The native socket of the \<^verbatim>\<open>ws\<close> package is an object outside this
  module, seen through the two registration methods the bridge calls:
  \<^item> \<open>forwarded\<close> logs, in call order, the calls of the native
    \<^verbatim>\<open>socket.addEventListener(type, listener)\<close>; what \<^verbatim>\<open>ws\<close> does with them is not
    modelled;
  \<^item> \<open>emitter\<close> is the listener table of Node's \<^verbatim>\<open>EventEmitter\<close>, which
    \<^verbatim>\<open>socket.on\<close> extends: Node documents that \<^verbatim>\<open>on\<close> adds the function to the end of
    the listeners of that event name without checking whether it was added before, and
    that \<^verbatim>\<open>emit\<close> calls the listeners of the name in the order of their registration.
\<close>

type_synonym listener = nat

datatype event_kind = EvOpen | EvMessage | EvError | EvClose

text \<open>The four closures the bridge passes to \<^verbatim>\<open>socket.on\<close> (lines 94, 100, 109, 115).\<close>

datatype handler =
    OpenHandler listener
  | MessageHandler listener
  | ErrorHandler listener
  | CloseHandler listener

record node_socket =
  has_addEventListener :: bool
  forwarded :: "(event_kind \<times> listener) list"
  emitter :: "(event_kind \<times> handler) list"

definition socket_on :: "node_socket \<Rightarrow> event_kind \<Rightarrow> handler \<Rightarrow> node_socket" where
  "socket_on socket type f = socket\<lparr>emitter := emitter socket @ [(type, f)]\<rparr>"

definition socket_addEventListener :: "node_socket \<Rightarrow> event_kind \<Rightarrow> listener \<Rightarrow> node_socket" where
  "socket_addEventListener socket type l = socket\<lparr>forwarded := forwarded socket @ [(type, l)]\<rparr>"

text \<open>\<^verbatim>\<open>addEventListener\<close> of the wrapper (lines 85 to 124).\<close>

definition addEventListener :: "node_socket \<Rightarrow> event_kind \<Rightarrow> listener \<Rightarrow> node_socket" where
  "addEventListener socket type l =
     (if has_addEventListener socket then socket_addEventListener socket type l
      else (case type of
              EvOpen \<Rightarrow> socket_on socket EvOpen (OpenHandler l)
            | EvMessage \<Rightarrow> socket_on socket EvMessage (MessageHandler l)
            | EvError \<Rightarrow> socket_on socket EvError (ErrorHandler l)
            | EvClose \<Rightarrow> socket_on socket EvClose (CloseHandler l)))"

text \<open>
  What the native emitter passes to the listeners of each event name: nothing for
  \<^verbatim>\<open>open\<close>, the raw data for \<^verbatim>\<open>message\<close>, the \<^verbatim>\<open>Error\<close> object for \<^verbatim>\<open>error\<close>, a code and
  a reason (a \<^verbatim>\<open>Buffer\<close>, given here by its bytes, or absent) for \<^verbatim>\<open>close\<close>.
\<close>

datatype native_event =
    NativeOpen
  | NativeMessage js_value
  | NativeError js_error
  | NativeClose nat "byte list option"

datatype iso_event =
    EmptyEvent
  | IsomorphicMessageEvent js_value
  | ErrorEvent js_error
  | IsomorphicCloseEvent nat "string option"

fun kind_of :: "native_event \<Rightarrow> event_kind" where
  "kind_of NativeOpen = EvOpen"
| "kind_of (NativeMessage d) = EvMessage"
| "kind_of (NativeError e) = EvError"
| "kind_of (NativeClose c r) = EvClose"

text \<open>
  \<^verbatim>\<open>reason.toString()\<close> of a \<^verbatim>\<open>Buffer\<close> decodes UTF-8. Strings are byte strings here,
  so the text is the bytes themselves; the replacement of invalid sequences is not
  modelled.
\<close>

definition buffer_toString :: "byte list \<Rightarrow> string" where
  "buffer_toString bs = map (\<lambda>b. char_of (unat b)) bs"

text \<open>
  Running one closure on the arguments of a native event. The emitter passes a closure
  only the arguments of the event name it was registered under, and the bridge registers
  each closure under its own name, so the last equation is never reached by \<open>emit\<close>
  below on a socket that only the bridge registered on.
\<close>

fun run_handler ::
  "heap \<Rightarrow> handler \<Rightarrow> native_event \<Rightarrow> js_error + heap \<times> (listener \<times> iso_event) list" where
  "run_handler h (OpenHandler l) NativeOpen = Inr (h, [(l, EmptyEvent)])"
| "run_handler h (MessageHandler l) (NativeMessage d) =
     (case normalizeNodeMessageData h d of
        Inl e \<Rightarrow> Inl e
      | Inr (h', normalized) \<Rightarrow> Inr (h', [(l, IsomorphicMessageEvent normalized)]))"
| "run_handler h (ErrorHandler l) (NativeError e) = Inr (h, [(l, ErrorEvent e)])"
| "run_handler h (CloseHandler l) (NativeClose code reason) =
     Inr (h, [(l, IsomorphicCloseEvent code (map_option buffer_toString reason))])"
| "run_handler h _ _ = Inr (h, [])"

text \<open>
  The listeners of an event's name run in registration order; an exception of one of
  them ends the emission.
\<close>

fun emit_handlers ::
  "heap \<Rightarrow> handler list \<Rightarrow> native_event \<Rightarrow> js_error + heap \<times> (listener \<times> iso_event) list" where
  "emit_handlers h [] ev = Inr (h, [])"
| "emit_handlers h (f # fs) ev =
     (case run_handler h f ev of
        Inl e \<Rightarrow> Inl e
      | Inr (h1, calls1) \<Rightarrow>
          (case emit_handlers h1 fs ev of
             Inl e \<Rightarrow> Inl e
           | Inr (h2, calls2) \<Rightarrow> Inr (h2, calls1 @ calls2)))"

definition handlers_of :: "node_socket \<Rightarrow> event_kind \<Rightarrow> handler list" where
  "handlers_of socket k = map snd (filter (\<lambda>(k', f). k' = k) (emitter socket))"

text \<open>
  \<^verbatim>\<open>socket.emit\<close> as the native socket calls it for its own events. Node treats the
  \<^verbatim>\<open>error\<close> event specially: when it is emitted and no listener is registered for it, the
  error is thrown instead. For every other event, no listener means nothing happens.
\<close>

definition emit ::
  "heap \<Rightarrow> node_socket \<Rightarrow> native_event \<Rightarrow> js_error + heap \<times> (listener \<times> iso_event) list" where
  "emit h socket ev =
     (case ev of
        NativeError e \<Rightarrow>
          (if handlers_of socket EvError = [] then Inl e
           else emit_handlers h (handlers_of socket EvError) ev)
      | _ \<Rightarrow> emit_handlers h (handlers_of socket (kind_of ev)) ev)"

text \<open>A series of registrations on one wrapper, in order.\<close>

definition register_all :: "node_socket \<Rightarrow> (event_kind \<times> listener) list \<Rightarrow> node_socket" where
  "register_all socket regs = foldl (\<lambda>s (k, l). addEventListener s k l) socket regs"

fun wf_event :: "heap \<Rightarrow> native_event \<Rightarrow> bool" where
  "wf_event h (NativeMessage d) = wf_value h d"
| "wf_event h _ = True"

fun handler_for :: "event_kind \<Rightarrow> listener \<Rightarrow> handler" where
  "handler_for EvOpen l = OpenHandler l"
| "handler_for EvMessage l = MessageHandler l"
| "handler_for EvError l = ErrorHandler l"
| "handler_for EvClose l = CloseHandler l"

section \<open>Capability detection and the Adapter Factory\<close>

text \<open>
  The globals the detection reads. \<open>WebSocketPair_defined\<close> is
  \<^verbatim>\<open>typeof WebSocketPair !== "undefined"\<close>; \<open>process\<close> is \<open>None\<close> when
  \<^verbatim>\<open>typeof process === "undefined"\<close>, and a process object may lack \<^verbatim>\<open>release\<close>, and a
  release its \<^verbatim>\<open>name\<close> (the optional chaining covers both). The three native
  constructors the factory calls are functions of the environment.
\<close>

datatype process_release = ProcessRelease (name: "string option")

datatype process_global = Process (release: "process_release option")

record std_socket =
  peer :: string
  accepted :: bool

record request =
  target :: string
  init_headers :: "(string \<times> string) list"

record response =
  status :: nat
  statusText :: string
  webSocket :: "std_socket option"

record options =
  headers :: "(string \<times> string) list option"

record environment =
  WebSocketPair_defined :: bool
  process :: "process_global option"
  fetch :: "request \<Rightarrow> js_error + response"
  NodeWebSocket :: "string \<Rightarrow> (string \<times> string) list option \<Rightarrow> js_error + node_socket"
  WebSocket :: "string \<Rightarrow> js_error + std_socket"

definition isNodeRuntime :: "environment \<Rightarrow> bool" where
  "isNodeRuntime env =
     (case process env of
        None \<Rightarrow> False
      | Some p \<Rightarrow> (case release p of None \<Rightarrow> False | Some r \<Rightarrow> name r = Some ''node''))"

definition isCloudflareWorkerRuntime :: "environment \<Rightarrow> bool" where
  "isCloudflareWorkerRuntime env = WebSocketPair_defined env"

text \<open>
  Everything the factory does to the outside, in order: calls of the logger, the request
  of the edge path, the \<^verbatim>\<open>accept\<close> of the paired socket, and the two native
  constructors with the arguments they are given.
\<close>

datatype log_level = Debug | Warn

datatype effect =
    Log log_level "string option" string
  | Fetch request
  | Accept std_socket
  | NewNodeWebSocket string "(string \<times> string) list option"
  | NewWebSocket string

datatype iso_socket = EdgeSocket std_socket | NodeBridge node_socket | GlobalSocket std_socket

record outcome =
  effects :: "effect list"
  result :: "js_error + iso_socket"

text \<open>\<^verbatim>\<open>String.prototype.replace\<close> with a string pattern: the first occurrence only.\<close>

fun replace_first :: "string \<Rightarrow> string \<Rightarrow> string \<Rightarrow> string" where
  "replace_first pat rep [] = (if pat = [] then rep else [])"
| "replace_first pat rep (c # s) =
     (if take (length pat) (c # s) = pat then rep @ drop (length pat) (c # s)
      else c # replace_first pat rep s)"

text \<open>A status number in a template literal: its decimal digits.\<close>

definition digit_char :: "nat \<Rightarrow> char" where
  "digit_char d = ''0123456789'' ! d"

fun string_of_nat :: "nat \<Rightarrow> string" where
  "string_of_nat n =
     (if n < 10 then [digit_char n] else string_of_nat (n div 10) @ [digit_char (n mod 10)])"

text \<open>
  Reading a property of an error made by \<^verbatim>\<open>new Error(message)\<close> and its kin: the
  constructor stores the message, the prototype gives the name, and the module stores
  nothing else on the object (the engine's \<^verbatim>\<open>stack\<close> is not modelled), so every other
  property reads as \<^verbatim>\<open>undefined\<close>.
\<close>

fun error_message :: "js_error \<Rightarrow> string" where
  "error_message (Error m) = m"
| "error_message (RangeError m) = m"
| "error_message (TypeError m) = m"

fun error_name :: "js_error \<Rightarrow> string" where
  "error_name (Error m) = ''Error''"
| "error_name (RangeError m) = ''RangeError''"
| "error_name (TypeError m) = ''TypeError''"

definition error_property :: "js_error \<Rightarrow> string \<Rightarrow> js_value" where
  "error_property e p =
     (if p = ''message'' then JSString (error_message e)
      else if p = ''name'' then JSString (error_name e)
      else JSUndefined)"

definition wrapNodeWebSocket :: "node_socket \<Rightarrow> iso_socket" where
  "wrapNodeWebSocket socket = NodeBridge socket"

definition createNodeWebSocket :: "environment \<Rightarrow> string \<Rightarrow> options \<Rightarrow> outcome" where
  "createNodeWebSocket env url opts =
     (case NodeWebSocket env url (headers opts) of
        Inl e \<Rightarrow> \<lparr>effects = [NewNodeWebSocket url (headers opts)], result = Inl e\<rparr>
      | Inr socket \<Rightarrow>
          \<lparr>effects = [NewNodeWebSocket url (headers opts)],
           result = Inr (wrapNodeWebSocket socket)\<rparr>)"

text \<open>
  \<^verbatim>\<open>{ ...options.headers, Upgrade: "websocket" }\<close>: the configured entries in their
  order, with \<^verbatim>\<open>Upgrade\<close> set (in place when configured, at the end otherwise).
\<close>

definition upgrade_headers :: "options \<Rightarrow> (string \<times> string) list" where
  "upgrade_headers opts =
     AList.update ''Upgrade'' ''websocket'' (case headers opts of None \<Rightarrow> [] | Some hs \<Rightarrow> hs)"

definition createCloudflareWebSocket :: "environment \<Rightarrow> string \<Rightarrow> options \<Rightarrow> outcome" where
  "createCloudflareWebSocket env url opts =
     (let req = \<lparr>target = replace_first ''wss://'' ''https://'' url,
                 init_headers = upgrade_headers opts\<rparr>
      in case fetch env req of
           Inl e \<Rightarrow> \<lparr>effects = [Fetch req], result = Inl e\<rparr>
         | Inr resp \<Rightarrow>
             (case webSocket resp of
                None \<Rightarrow>
                  \<lparr>effects = [Fetch req],
                   result = Inl (Error (''Server refused the WebSocket upgrade: ''
                                  @ string_of_nat (status resp) @ '' '' @ statusText resp))\<rparr>
              | Some socket \<Rightarrow>
                  \<lparr>effects = [Fetch req, Accept socket],
                   result = Inr (EdgeSocket (socket\<lparr>accepted := True\<rparr>))\<rparr>))"

definition createGlobalWebSocket :: "environment \<Rightarrow> string \<Rightarrow> outcome" where
  "createGlobalWebSocket env url =
     (case WebSocket env url of
        Inl e \<Rightarrow> \<lparr>effects = [NewWebSocket url], result = Inl e\<rparr>
      | Inr socket \<Rightarrow> \<lparr>effects = [NewWebSocket url], result = Inr (GlobalSocket socket)\<rparr>)"

definition logged :: "effect \<Rightarrow> outcome \<Rightarrow> outcome" where
  "logged e out = out\<lparr>effects := e # effects out\<rparr>"

definition getIsomorphicWebSocket :: "environment \<Rightarrow> string \<Rightarrow> options \<Rightarrow> outcome" where
  "getIsomorphicWebSocket env url opts =
     (if isCloudflareWorkerRuntime env then
        logged (Log Debug (Some url) ''Using Cloudflare Worker WebSocket implementation'')
          (createCloudflareWebSocket env url opts)
      else if isNodeRuntime env then
        logged (Log Debug (Some url) ''Using Node WebSocket implementation'')
          (createNodeWebSocket env url opts)
      else
        logged (Log Warn None
                  ''Falling back to global WebSocket; custom headers may not be applied'')
          (createGlobalWebSocket env url))"

text \<open>The three variants, and the one a native call belongs to.\<close>

datatype variant = EdgeSandbox | ProcessHost | Generic

fun variant_of_effect :: "effect \<Rightarrow> variant option" where
  "variant_of_effect (Fetch r) = Some EdgeSandbox"
| "variant_of_effect (NewNodeWebSocket u hs) = Some ProcessHost"
| "variant_of_effect (NewWebSocket u) = Some Generic"
| "variant_of_effect _ = None"

definition variants_built :: "outcome \<Rightarrow> variant list" where
  "variants_built out = List.map_filter variant_of_effect (effects out)"

fun is_warning :: "effect \<Rightarrow> bool" where
  "is_warning (Log Warn c m) = True"
| "is_warning _ = False"

text \<open>The requests among the effects, and whether a text occurs inside another.\<close>

fun fetched :: "effect \<Rightarrow> request option" where
  "fetched (Fetch r) = Some r"
| "fetched _ = None"

definition requests_of :: "outcome \<Rightarrow> request list" where
  "requests_of out = List.map_filter fetched (effects out)"

fun occurs :: "string \<Rightarrow> string \<Rightarrow> bool" where
  "occurs pat [] = (pat = [])"
| "occurs pat (c # s) = (take (length pat) (c # s) = pat \<or> occurs pat s)"

section \<open>Facts about the store\<close>

lemma buffer_at_append: "a < length h \<Longrightarrow> buffer_at (h @ ext) a = buffer_at h a"
  by (simp add: buffer_at_def nth_append)

lemma view_in_heap_append: "view_in_heap h v \<Longrightarrow> view_in_heap (h @ ext) v"
  by (simp add: view_in_heap_def nth_append)

lemma view_bytes_append: "view_in_heap h v \<Longrightarrow> view_bytes (h @ ext) v = view_bytes h v"
  by (simp add: view_in_heap_def view_bytes_def buffer_at_append)

lemma length_view_bytes: "view_in_heap h v \<Longrightarrow> length (view_bytes h v) = byteLength v"
  by (auto simp: view_in_heap_def view_bytes_def buffer_at_def)

lemma wf_ref_append: "wf_ref h c \<Longrightarrow> wf_ref (h @ ext) c"
  by (cases c) (simp_all add: view_in_heap_append)

lemma chunk_bytes_append: "wf_ref h c \<Longrightarrow> chunk_bytes (h @ ext) c = chunk_bytes h c"
  by (cases c) (simp_all add: view_bytes_append buffer_at_append)

lemma wf_value_append: "wf_value h v \<Longrightarrow> wf_value (h @ ext) v"
  by (cases v) (simp_all add: view_in_heap_append list_all_iff wf_ref_append)

lemma length_chunk_bytes: "wf_ref h c \<Longrightarrow> length (chunk_bytes h c) = chunk_length h c"
  by (cases c) (simp_all add: length_view_bytes)

section \<open>The array branch of the normalizer\<close>

text \<open>
  The \<^verbatim>\<open>map\<close> step allocates one empty buffer for each element that is neither a buffer
  nor a view, and yields views that lie inside the store and show the bytes of the
  elements.
\<close>

lemma chunk_to_view_ok:
  assumes "wf_ref h c"
  shows "\<exists>v. chunk_to_view h c = Inr (h @ (if is_binary_chunk c then [] else [[]]), v)
           \<and> view_in_heap (h @ (if is_binary_chunk c then [] else [[]])) v
           \<and> view_bytes (h @ (if is_binary_chunk c then [] else [[]])) v = chunk_bytes h c"
proof (cases c)
  case (JSView w)
  with assms have w: "view_in_heap h w" by simp
  show ?thesis
  proof (cases "kind w = Uint8Array \<or> kind w = NodeBuffer")
    case True
    with JSView w show ?thesis by (simp add: is_binary_chunk_def)
  next
    case False
    with JSView w show ?thesis
      by (simp add: is_binary_chunk_def new_Uint8Array_range_def view_in_heap_def
            buffer_at_def view_bytes_def)
  qed
next
  case (JSArrayBuffer a)
  with assms show ?thesis
    by (simp add: is_binary_chunk_def new_Uint8Array_buffer_def view_in_heap_def
          buffer_at_def view_bytes_def)
qed (simp_all add: is_binary_chunk_def new_Uint8Array_empty_def view_in_heap_def
       view_bytes_def buffer_at_def)

lemma map_chunks_ok:
  "list_all (wf_ref h) cs \<Longrightarrow>
   \<exists>vs. map_chunks h cs = Inr (h @ replicate (unrecognized cs) [], vs)
       \<and> list_all (view_in_heap (h @ replicate (unrecognized cs) [])) vs
       \<and> map (view_bytes (h @ replicate (unrecognized cs) [])) vs = map (chunk_bytes h) cs"
proof (induction cs arbitrary: h)
  case Nil
  then show ?case by (simp add: unrecognized_def)
next
  case (Cons c cs)
  let ?e = "if is_binary_chunk c then [] else [[]] :: heap"
  from Cons.prems have c: "wf_ref h c" and cs: "list_all (wf_ref h) cs" by simp_all
  from chunk_to_view_ok [OF c] obtain v where
    v: "chunk_to_view h c = Inr (h @ ?e, v)" "view_in_heap (h @ ?e) v"
       "view_bytes (h @ ?e) v = chunk_bytes h c"
    by blast
  from cs have "list_all (wf_ref (h @ ?e)) cs"
    by (simp add: list_all_iff wf_ref_append)
  from Cons.IH [OF this] obtain vs where
    vs: "map_chunks (h @ ?e) cs = Inr ((h @ ?e) @ replicate (unrecognized cs) [], vs)"
        "list_all (view_in_heap ((h @ ?e) @ replicate (unrecognized cs) [])) vs"
        "map (view_bytes ((h @ ?e) @ replicate (unrecognized cs) [])) vs
           = map (chunk_bytes (h @ ?e)) cs"
    by blast
  have ext: "(h @ ?e) @ replicate (unrecognized cs) [] = h @ replicate (unrecognized (c # cs)) []"
    by (simp add: unrecognized_def replicate_app_Cons_same)
  have cb: "map (chunk_bytes (h @ ?e)) cs = map (chunk_bytes h) cs"
    using cs by (simp add: list_all_iff chunk_bytes_append)
  have "map_chunks h (c # cs) = Inr (h @ replicate (unrecognized (c # cs)) [], v # vs)"
    using v(1) vs(1) ext by simp
  moreover have "view_in_heap (h @ replicate (unrecognized (c # cs)) []) v"
    using view_in_heap_append [OF v(2), of "replicate (unrecognized cs) []"] ext by simp
  moreover have "view_bytes (h @ replicate (unrecognized (c # cs)) []) v = chunk_bytes h c"
    using view_bytes_append [OF v(2), of "replicate (unrecognized cs) []"] v(3) ext by simp
  ultimately show ?case using vs(2,3) ext cb by simp
qed

lemma foldl_byteLength:
  "foldl (\<lambda>total chunk. total + byteLength chunk) n vs = n + sum_list (map byteLength vs)"
  by (induction vs arbitrary: n) simp_all

lemma total_length_sum: "total_length vs = sum_list (map byteLength vs)"
  by (simp add: total_length_def foldl_byteLength)

lemma total_length_concat:
  "list_all (view_in_heap h) vs \<Longrightarrow> total_length vs = length (concat (map (view_bytes h) vs))"
  by (induction vs) (simp_all add: total_length_sum length_view_bytes)

text \<open>
  The copy loop: with the merged buffer last in the store and every chunk in an older
  buffer, the loop overwrites the merged buffer from \<open>offset\<close> on with the chunks' bytes
  in order, and never runs out of room.
\<close>

lemma merge_loop_ok:
  "list_all (view_in_heap h) vs \<Longrightarrow> length buf = n \<Longrightarrow> offset + total_length vs \<le> n \<Longrightarrow>
   merge_loop (h @ [buf]) (ArrayView Uint8Array (length h) 0 n) vs offset
     = Inr (h @ [take offset buf @ concat (map (view_bytes h) vs)
                  @ drop (offset + total_length vs) buf])"
proof (induction vs arbitrary: buf offset)
  case Nil
  then show ?case by (simp add: total_length_sum)
next
  case (Cons v vs)
  from Cons.prems have v: "view_in_heap h v" and vs: "list_all (view_in_heap h) vs" by simp_all
  let ?src = "view_bytes h v"
  let ?buf = "write_bytes buf offset ?src"
  have len: "length ?src = byteLength v" using v by (rule length_view_bytes)
  have fit: "offset + byteLength v + total_length vs \<le> n"
    using Cons.prems(3) by (simp add: total_length_sum)
  have step: "typed_array_set (h @ [buf]) (ArrayView Uint8Array (length h) 0 n) v offset
                = Inr (h @ [?buf])"
    using fit view_bytes_append [OF v, of "[buf]"]
    by (simp add: typed_array_set_def buffer_at_def)
  have lbuf: "length ?buf = n"
    using fit Cons.prems(2) len by (simp add: write_bytes_def)
  have "merge_loop (h @ [?buf]) (ArrayView Uint8Array (length h) 0 n) vs (offset + byteLength v)
          = Inr (h @ [take (offset + byteLength v) ?buf @ concat (map (view_bytes h) vs)
                       @ drop (offset + byteLength v + total_length vs) ?buf])"
    using Cons.IH [OF vs lbuf fit] .
  moreover have "take (offset + byteLength v) ?buf = take offset buf @ ?src"
    using fit Cons.prems(2) len by (simp add: write_bytes_def)
  moreover have "drop (offset + byteLength v + total_length vs) ?buf
                   = drop (offset + total_length (v # vs)) buf"
    using fit Cons.prems(2) len by (simp add: write_bytes_def total_length_sum ac_simps)
  ultimately show ?case using step by simp
qed

lemma normalize_array:
  assumes "list_all (wf_ref h) cs"
  shows "normalizeNodeMessageData h (JSArray cs)
           = Inr (h @ replicate (unrecognized cs) [] @ [concat (map (chunk_bytes h) cs)],
                  JSView (ArrayView Uint8Array (length h + unrecognized cs) 0
                            (length (concat (map (chunk_bytes h) cs)))))"
proof -
  let ?h1 = "h @ replicate (unrecognized cs) []"
  from map_chunks_ok [OF assms] obtain vs where
    vs: "map_chunks h cs = Inr (?h1, vs)" "list_all (view_in_heap ?h1) vs"
        "map (view_bytes ?h1) vs = map (chunk_bytes h) cs"
    by blast
  let ?n = "total_length vs"
  have n: "?n = length (concat (map (chunk_bytes h) cs))"
    using total_length_concat [OF vs(2)] vs(3) by simp
  have "merge_loop (?h1 @ [replicate ?n 0]) (ArrayView Uint8Array (length ?h1) 0 ?n) vs 0
          = Inr (?h1 @ [take 0 (replicate ?n 0) @ concat (map (view_bytes ?h1) vs)
                         @ drop (0 + ?n) (replicate ?n 0)])"
    by (rule merge_loop_ok [OF vs(2)]) simp_all
  then have "merge_loop (?h1 @ [replicate ?n 0]) (ArrayView Uint8Array (length ?h1) 0 ?n) vs 0
          = Inr (?h1 @ [concat (map (chunk_bytes h) cs)])"
    using vs(3) by simp
  then show ?thesis
    using vs(1) n by (simp add: new_Uint8Array_length_def)
qed

lemma concat_binary_only:
  "concat (map (chunk_bytes h) (filter is_binary_chunk cs)) = concat (map (chunk_bytes h) cs)"
proof (induction cs)
  case Nil
  show ?case by simp
next
  case (Cons c cs)
  have "\<not> is_binary_chunk c \<Longrightarrow> chunk_bytes h c = []"
    by (cases c) (simp_all add: is_binary_chunk_def)
  with Cons show ?case by simp
qed

lemma nth_concat_offset:
  "i < length xss \<Longrightarrow> j < length (xss ! i) \<Longrightarrow>
   concat xss ! (length (concat (take i xss)) + j) = xss ! i ! j"
proof (induction xss arbitrary: i)
  case Nil
  then show ?case by simp
next
  case (Cons xs xss)
  show ?case
  proof (cases i)
    case 0
    with Cons.prems show ?thesis by (simp add: nth_append)
  next
    case (Suc k)
    with Cons.prems have "concat xss ! (length (concat (take k xss)) + j) = xss ! k ! j"
      by (intro Cons.IH) simp_all
    with Suc show ?thesis by (simp add: nth_append add.assoc)
  qed
qed

lemma length_concat_chunks:
  "list_all (wf_ref h) cs \<Longrightarrow>
   length (concat (map (chunk_bytes h) cs)) = sum_list (map (chunk_length h) cs)"
  by (induction cs) (simp_all add: length_chunk_bytes)

lemma unrecognized_none: "list_all is_binary_chunk cs \<Longrightarrow> unrecognized cs = 0"
  by (simp add: unrecognized_def list_all_iff)

lemma normalize_extends:
  assumes "wf_value h v"
  shows "\<exists>ext r. normalizeNodeMessageData h v = Inr (h @ ext, r)"
proof (cases v)
  case (JSArray cs)
  with assms have "list_all (wf_ref h) cs" by simp
  from normalize_array [OF this] JSArray show ?thesis by blast
next
  case (JSView w)
  with assms show ?thesis
    by (simp add: new_Uint8Array_range_def view_in_heap_def buffer_at_def)
qed (simp_all add: new_Uint8Array_empty_def)

section \<open>Properties of the normalizer\<close>

text \<open>
  C2. For a list of binary chunks (buffers and views, each lying inside the store), the
  normalizer returns a \<^verbatim>\<open>Uint8Array\<close> at offset 0 of a buffer that did not exist before
  (its address is the first one beyond the old store, and the old buffers are unchanged).
  The length of the result is the sum of the chunks' byte lengths, the new buffer holds
  exactly the chunks' bytes concatenated in their order, with nothing before, between or
  after them, and byte \<open>j\<close> of chunk \<open>i\<close> is found at the sum of the lengths of the chunks
  before \<open>i\<close>, plus \<open>j\<close>. Chunks of length 0 are allowed.
\<close>

theorem normalize_chunks_concat:
  assumes wf: "list_all (wf_ref h) cs" and bin: "list_all is_binary_chunk cs"
  shows "\<exists>h' m. normalizeNodeMessageData h (JSArray cs) = Inr (h', JSView m)
           \<and> kind m = Uint8Array \<and> byteOffset m = 0
           \<and> byteLength m = sum_list (map (chunk_length h) cs)
           \<and> view_bytes h' m = concat (map (chunk_bytes h) cs)
           \<and> buffer_at h' (buffer m) = concat (map (chunk_bytes h) cs)
           \<and> buffer m = length h \<and> h' = h @ [concat (map (chunk_bytes h) cs)]
           \<and> (\<forall>i < length cs. \<forall>j < chunk_length h (cs ! i).
                 view_bytes h' m ! (sum_list (map (chunk_length h) (take i cs)) + j)
                   = chunk_bytes h (cs ! i) ! j)"
proof -
  let ?bytes = "concat (map (chunk_bytes h) cs)"
  let ?m = "ArrayView Uint8Array (length h) 0 (length ?bytes)"
  let ?h' = "h @ [?bytes]"
  have norm: "normalizeNodeMessageData h (JSArray cs) = Inr (?h', JSView ?m)"
    using normalize_array [OF wf] unrecognized_none [OF bin] by simp
  have len: "length ?bytes = sum_list (map (chunk_length h) cs)"
    using wf by (rule length_concat_chunks)
  have vb: "view_bytes ?h' ?m = ?bytes"
    by (simp add: view_bytes_def buffer_at_def)
  have ba: "buffer_at ?h' (buffer ?m) = ?bytes"
    by (simp add: buffer_at_def)
  have nth: "view_bytes ?h' ?m ! (sum_list (map (chunk_length h) (take i cs)) + j)
               = chunk_bytes h (cs ! i) ! j"
    if i: "i < length cs" and j: "j < chunk_length h (cs ! i)" for i j
  proof -
    from wf i have wi: "wf_ref h (cs ! i)" by (simp add: list_all_length)
    from wf have "list_all (wf_ref h) (take i cs)"
      by (auto simp: list_all_iff dest: in_set_takeD)
    then have pre: "sum_list (map (chunk_length h) (take i cs))
                      = length (concat (take i (map (chunk_bytes h) cs)))"
      by (simp add: length_concat_chunks take_map)
    have "j < length (map (chunk_bytes h) cs ! i)"
      using i j wi by (simp add: length_chunk_bytes)
    with i have "concat (map (chunk_bytes h) cs)
                   ! (length (concat (take i (map (chunk_bytes h) cs))) + j)
                 = map (chunk_bytes h) cs ! i ! j"
      by (intro nth_concat_offset) simp_all
    with i pre vb show ?thesis by simp
  qed
  show ?thesis
    using norm len vb ba nth by (intro exI [of _ ?h'] exI [of _ ?m]) simp
qed

theorem normalize_chunks_concat_witness:
  "list_all (wf_ref [[1, 2, 3], [4, 5, 6, 7, 8], [9, 10]])
     [JSView (ArrayView NodeBuffer 0 0 3), JSArrayBuffer 1, JSView (ArrayView OtherView 2 0 2)]
   \<and> list_all is_binary_chunk
     [JSView (ArrayView NodeBuffer 0 0 3), JSArrayBuffer 1, JSView (ArrayView OtherView 2 0 2)]
   \<and> (\<exists>h' m. normalizeNodeMessageData [[1, 2, 3], [4, 5, 6, 7, 8], [9, 10]]
                 (JSArray [JSView (ArrayView NodeBuffer 0 0 3), JSArrayBuffer 1,
                           JSView (ArrayView OtherView 2 0 2)]) = Inr (h', JSView m)
          \<and> byteLength m = 10 \<and> buffer m = 3
          \<and> view_bytes h' m = [1, 2, 3, 4, 5, 6, 7, 8, 9, 10])"
  (is "?wf \<and> ?bin \<and> ?concl")
proof -
  have wf: ?wf by (simp add: view_in_heap_def)
  have bin: ?bin by (simp add: is_binary_chunk_def)
  let ?H = "[[1, 2, 3], [4, 5, 6, 7, 8], [9, 10]] :: heap"
  let ?CS = "[JSView (ArrayView NodeBuffer 0 0 3), JSArrayBuffer 1,
              JSView (ArrayView OtherView 2 0 2)]"
  from normalize_chunks_concat [OF wf bin] obtain h' m where
    n: "normalizeNodeMessageData ?H (JSArray ?CS) = Inr (h', JSView m)"
    and l: "byteLength m = sum_list (map (chunk_length ?H) ?CS)"
    and a: "buffer m = length ?H"
    and v: "view_bytes h' m = concat (map (chunk_bytes ?H) ?CS)"
    by blast
  have e1: "sum_list (map (chunk_length ?H) ?CS) = 10"
    by (simp add: buffer_at_def)
  have e2: "concat (map (chunk_bytes ?H) ?CS) = [1, 2, 3, 4, 5, 6, 7, 8, 9, 10]"
    by (simp add: view_bytes_def buffer_at_def)
  have e3: "length ?H = 3" by simp
  from n l [unfolded e1] a [unfolded e3] v [unfolded e2] have ?concl by blast
  with wf bin show ?thesis by blast
qed

text \<open>
  C4. An input that is not a string, not an ArrayBuffer, not a view on a buffer and not
  an array is answered with a new view of length 0 on a new empty buffer: the payload
  read from the result is the empty byte sequence, no error is raised, and the buffers
  that existed before are untouched.
\<close>

theorem normalize_unrecognized_empty:
  assumes "\<not> is_string v" and "\<not> is_ArrayBuffer v" and "\<not> isView v" and "\<not> isArray v"
  shows "\<exists>h' r. normalizeNodeMessageData h v = Inr (h', r)
           \<and> payload_of h' r = Some (Binary [])
           \<and> take (length h) h' = h"
  using assms
  by (cases v) (simp_all add: new_Uint8Array_empty_def view_bytes_def buffer_at_def)

theorem normalize_unrecognized_empty_witness:
  "\<not> is_string (JSNumber 7) \<and> \<not> is_ArrayBuffer (JSNumber 7) \<and> \<not> isView (JSNumber 7)
   \<and> \<not> isArray (JSNumber 7)
   \<and> (\<exists>h' r. normalizeNodeMessageData [[1, 2]] (JSNumber 7) = Inr (h', r)
           \<and> payload_of h' r = Some (Binary [])
           \<and> take (length [[1, 2 :: byte]]) h' = [[1, 2]])"
  using normalize_unrecognized_empty [of "JSNumber 7" "[[1, 2]]"] by simp

text \<open>
  C5. A string, an ArrayBuffer or a view lying inside its buffer is normalized without
  error and without touching the store, to a value with the same payload (same text, or
  same bytes, hence the same length). A string or a buffer is returned as it is; a view
  of any kind is returned as a \<^verbatim>\<open>Uint8Array\<close> on the same buffer with the same byte
  offset and byte length, so nothing is copied. Lengths are counted in bytes.
\<close>

theorem normalize_canonical_unchanged:
  assumes shape: "is_string v \<or> is_ArrayBuffer v \<or> isView v" and wf: "wf_value h v"
  shows "\<exists>r. normalizeNodeMessageData h v = Inr (h, r)
           \<and> payload_of h v \<noteq> None
           \<and> payload_of h r = payload_of h v
           \<and> map_option payload_length (payload_of h r) = map_option payload_length (payload_of h v)
           \<and> (is_string v \<or> is_ArrayBuffer v \<longrightarrow> r = v)
           \<and> (\<forall>w. v = JSView w \<longrightarrow>
                 r = JSView (ArrayView Uint8Array (buffer w) (byteOffset w) (byteLength w)))"
  using assms
  by (cases v)
     (simp_all add: new_Uint8Array_range_def view_in_heap_def buffer_at_def view_bytes_def)

theorem normalize_canonical_unchanged_witness:
  "(is_string (JSView (ArrayView NodeBuffer 0 1 2))
      \<or> is_ArrayBuffer (JSView (ArrayView NodeBuffer 0 1 2))
      \<or> isView (JSView (ArrayView NodeBuffer 0 1 2)))
   \<and> wf_value [[7, 8, 9, 10]] (JSView (ArrayView NodeBuffer 0 1 2))
   \<and> normalizeNodeMessageData [[7, 8, 9, 10]] (JSView (ArrayView NodeBuffer 0 1 2))
       = Inr ([[7, 8, 9, 10]], JSView (ArrayView Uint8Array 0 1 2))
   \<and> payload_of [[7, 8, 9, 10]] (JSView (ArrayView Uint8Array 0 1 2)) = Some (Binary [8, 9])
   \<and> payload_of [[7, 8, 9, 10]] (JSView (ArrayView NodeBuffer 0 1 2)) = Some (Binary [8, 9])"
  (is "?shape \<and> ?wf \<and> ?concl")
proof -
  have shape: ?shape by simp
  have wf: ?wf by (simp add: view_in_heap_def)
  from normalize_canonical_unchanged [OF shape wf] have ?concl
    by (simp add: view_bytes_def buffer_at_def)
  with shape wf show ?thesis by blast
qed

text \<open>
  C9. In an array, an element that is neither an ArrayBuffer nor a view is turned by the
  \<^verbatim>\<open>map\<close> callback into a view of length 0 with no bytes, in any store and without
  error. The normalized array is therefore, without error, the concatenation in order of
  the bytes of the buffer and view elements alone, its length is the sum of their
  lengths, and the buffers that existed before are untouched.
\<close>

theorem normalize_skips_unrecognized_chunks:
  assumes wf: "list_all (wf_ref h) cs"
  shows "\<exists>h' m. normalizeNodeMessageData h (JSArray cs) = Inr (h', JSView m)
           \<and> view_bytes h' m = concat (map (chunk_bytes h) (filter is_binary_chunk cs))
           \<and> byteLength m = sum_list (map (chunk_length h) (filter is_binary_chunk cs))
           \<and> take (length h) h' = h
           \<and> (\<forall>c \<in> set cs. \<not> is_binary_chunk c \<longrightarrow>
                 (\<forall>g. \<exists>g' v. chunk_to_view g c = Inr (g', v) \<and> byteLength v = 0
                         \<and> view_bytes g' v = []))"
proof -
  let ?bytes = "concat (map (chunk_bytes h) cs)"
  let ?m = "ArrayView Uint8Array (length h + unrecognized cs) 0 (length ?bytes)"
  let ?h' = "h @ replicate (unrecognized cs) [] @ [?bytes]"
  have norm: "normalizeNodeMessageData h (JSArray cs) = Inr (?h', JSView ?m)"
    using wf by (rule normalize_array)
  have vb: "view_bytes ?h' ?m = concat (map (chunk_bytes h) (filter is_binary_chunk cs))"
    by (simp add: view_bytes_def buffer_at_def nth_append concat_binary_only)
  from wf have "list_all (wf_ref h) (filter is_binary_chunk cs)"
    by (simp add: list_all_iff)
  then have len: "length ?bytes = sum_list (map (chunk_length h) (filter is_binary_chunk cs))"
    using length_concat_chunks [of h "filter is_binary_chunk cs"]
    by (simp add: concat_binary_only)
  have coerced: "\<exists>g' v. chunk_to_view g c = Inr (g', v) \<and> byteLength v = 0 \<and> view_bytes g' v = []"
    if "\<not> is_binary_chunk c" for c g
    using that
    by (cases c) (simp_all add: is_binary_chunk_def new_Uint8Array_empty_def view_bytes_def)
  show ?thesis
    using norm vb len coerced by (intro exI [of _ ?h'] exI [of _ ?m]) simp
qed

theorem normalize_skips_unrecognized_chunks_witness:
  "list_all (wf_ref [[1, 2, 3, 4, 5, 6]])
     [JSView (ArrayView OtherView 0 1 2), JSNull, JSString ''x'', JSArrayBuffer 0]
   \<and> (\<exists>h' m. normalizeNodeMessageData [[1, 2, 3, 4, 5, 6]]
                 (JSArray [JSView (ArrayView OtherView 0 1 2), JSNull, JSString ''x'',
                           JSArrayBuffer 0]) = Inr (h', JSView m)
          \<and> view_bytes h' m = [2, 3, 1, 2, 3, 4, 5, 6] \<and> byteLength m = 8)"
  (is "?wf \<and> ?concl")
proof -
  have wf: ?wf by (simp add: view_in_heap_def)
  let ?H = "[[1, 2, 3, 4, 5, 6]] :: heap"
  let ?CS = "[JSView (ArrayView OtherView 0 1 2), JSNull, JSString ''x'', JSArrayBuffer 0]"
  from normalize_skips_unrecognized_chunks [OF wf] obtain h' m where
    n: "normalizeNodeMessageData ?H (JSArray ?CS) = Inr (h', JSView m)"
    and v: "view_bytes h' m = concat (map (chunk_bytes ?H) (filter is_binary_chunk ?CS))"
    and l: "byteLength m = sum_list (map (chunk_length ?H) (filter is_binary_chunk ?CS))"
    by blast
  have e1: "concat (map (chunk_bytes ?H) (filter is_binary_chunk ?CS)) = [2, 3, 1, 2, 3, 4, 5, 6]"
    by (simp add: view_bytes_def buffer_at_def is_binary_chunk_def)
  have e2: "sum_list (map (chunk_length ?H) (filter is_binary_chunk ?CS)) = 8"
    by (simp add: buffer_at_def is_binary_chunk_def)
  from n v [unfolded e1] l [unfolded e2] have ?concl by blast
  with wf show ?thesis by blast
qed

section \<open>Properties of the Emitter Bridge\<close>

lemma wf_event_append: "wf_event h ev \<Longrightarrow> wf_event (h @ ext) ev"
  by (cases ev) (simp_all add: wf_value_append)

lemma run_handler_for:
  assumes "wf_event h ev"
  shows "\<exists>ext c. run_handler h (handler_for (kind_of ev) l) ev = Inr (h @ ext, [(l, c)])"
proof (cases ev)
  case (NativeMessage d)
  with assms have "wf_value h d" by simp
  from normalize_extends [OF this] obtain ext r where
    "normalizeNodeMessageData h d = Inr (h @ ext, r)" by blast
  with NativeMessage show ?thesis by simp
qed simp_all

lemma emit_handlers_all:
  "wf_event h ev \<Longrightarrow>
   \<exists>h' calls. emit_handlers h (map (handler_for (kind_of ev)) ls) ev = Inr (h', calls)
       \<and> map fst calls = ls"
proof (induction ls arbitrary: h)
  case Nil
  show ?case by simp
next
  case (Cons l ls)
  from run_handler_for [OF Cons.prems] obtain ext c where
    r: "run_handler h (handler_for (kind_of ev) l) ev = Inr (h @ ext, [(l, c)])" by blast
  from Cons.IH [OF wf_event_append [OF Cons.prems]] obtain h' calls where
    "emit_handlers (h @ ext) (map (handler_for (kind_of ev)) ls) ev = Inr (h', calls)"
    "map fst calls = ls" by blast
  with r show ?case by simp
qed

lemma addEventListener_manual:
  "\<not> has_addEventListener s \<Longrightarrow>
   addEventListener s k l = s\<lparr>emitter := emitter s @ [(k, handler_for k l)]\<rparr>"
  by (cases k) (simp_all add: addEventListener_def socket_on_def)

lemma register_all_manual:
  "\<not> has_addEventListener s \<Longrightarrow>
   register_all s regs = s\<lparr>emitter := emitter s @ map (\<lambda>(k, l). (k, handler_for k l)) regs\<rparr>"
proof (induction regs arbitrary: s)
  case Nil
  show ?case by (simp add: register_all_def)
next
  case (Cons r regs)
  obtain k l where r: "r = (k, l)" by (cases r)
  let ?s = "addEventListener s k l"
  have s1: "?s = s\<lparr>emitter := emitter s @ [(k, handler_for k l)]\<rparr>"
    using Cons.prems by (rule addEventListener_manual)
  then have "\<not> has_addEventListener ?s" using Cons.prems by simp
  from Cons.IH [OF this] have "register_all ?s regs
      = ?s\<lparr>emitter := emitter ?s @ map (\<lambda>(k, l). (k, handler_for k l)) regs\<rparr>" .
  moreover have "register_all s (r # regs) = register_all ?s regs"
    by (simp add: register_all_def r)
  ultimately show ?case using s1 r by simp
qed

lemma register_all_native:
  "has_addEventListener s \<Longrightarrow>
   register_all s regs = s\<lparr>forwarded := forwarded s @ regs\<rparr>"
proof (induction regs arbitrary: s)
  case Nil
  show ?case by (simp add: register_all_def)
next
  case (Cons r regs)
  obtain k l where r: "r = (k, l)" by (cases r)
  let ?s = "addEventListener s k l"
  have s1: "?s = s\<lparr>forwarded := forwarded s @ [(k, l)]\<rparr>"
    using Cons.prems by (simp add: addEventListener_def socket_addEventListener_def)
  then have "has_addEventListener ?s" using Cons.prems by simp
  from Cons.IH [OF this] have "register_all ?s regs = ?s\<lparr>forwarded := forwarded ?s @ regs\<rparr>" .
  moreover have "register_all s (r # regs) = register_all ?s regs"
    by (simp add: register_all_def r)
  ultimately show ?case using s1 r by simp
qed

lemma filter_wrapped:
  "map snd (filter (\<lambda>(k', f). k' = k) (map (\<lambda>(k, l). (k, handler_for k l)) regs))
     = map (handler_for k) (map snd (filter (\<lambda>(k', l). k' = k) regs))"
  by (induction regs) auto

lemma emit_handled:
  "kind_of ev \<noteq> EvError \<or> handlers_of s EvError \<noteq> [] \<Longrightarrow>
   emit h s ev = emit_handlers h (handlers_of s (kind_of ev)) ev"
  by (cases ev) (simp_all add: emit_def)

lemma emit_unhandled:
  "handlers_of s EvError = [] \<Longrightarrow> emit h s (NativeError e) = Inl e"
  by (simp add: emit_def)

lemma handlers_of_registered:
  assumes "\<not> has_addEventListener s" and "emitter s = []"
  shows "handlers_of (register_all s regs) k
           = map (handler_for k) (map snd (filter (\<lambda>(k', l). k' = k) regs))"
proof -
  have "emitter (register_all s regs) = map (\<lambda>(k, l). (k, handler_for k l)) regs"
    using assms(2) by (simp add: register_all_manual [OF assms(1)])
  then show ?thesis by (simp only: handlers_of_def filter_wrapped)
qed

text \<open>
  C1, as the code has it. The wrapper keeps no listener table of its own and never removes
  a listener: each registration is one call of the native socket. On a wrapper whose
  native socket has no \<^verbatim>\<open>addEventListener\<close>, after any series of registrations an
  event of some kind calls every listener registered for that kind, once each, in the
  order of registration, so after two registrations for the same kind the first listener
  fires and then the second. This holds for every event that has a listener and for
  every event other than \<^verbatim>\<open>error\<close>; an \<^verbatim>\<open>error\<close> event emitted while no
  \<^verbatim>\<open>error\<close> listener is registered calls nobody and the emitter throws the error. On
  a native socket that has \<^verbatim>\<open>addEventListener\<close>, every registration is forwarded to it
  unchanged, in order, and the emitter table is not used.
\<close>

theorem bridge_listeners_accumulate:
  assumes fresh: "emitter s = []" and wf: "wf_event h ev"
  shows "(\<not> has_addEventListener s
            \<and> (kind_of ev = EvError \<longrightarrow> filter (\<lambda>(k, l). k = EvError) regs \<noteq> []) \<longrightarrow>
            (\<exists>h' calls. emit h (register_all s regs) ev = Inr (h', calls)
               \<and> map fst calls = map snd (filter (\<lambda>(k, l). k = kind_of ev) regs)))
       \<and> (\<not> has_addEventListener s \<and> filter (\<lambda>(k, l). k = EvError) regs = [] \<longrightarrow>
            (\<forall>e. ev = NativeError e \<longrightarrow> emit h (register_all s regs) ev = Inl e))
       \<and> (has_addEventListener s \<longrightarrow>
            forwarded (register_all s regs) = forwarded s @ regs
            \<and> emitter (register_all s regs) = [])"
proof (intro conjI impI allI)
  assume a: "\<not> has_addEventListener s
               \<and> (kind_of ev = EvError \<longrightarrow> filter (\<lambda>(k, l). k = EvError) regs \<noteq> [])"
  then have manual: "\<not> has_addEventListener s" by simp
  let ?ls = "map snd (filter (\<lambda>(k, l). k = kind_of ev) regs)"
  have hs: "handlers_of (register_all s regs) (kind_of ev) = map (handler_for (kind_of ev)) ?ls"
    using manual fresh by (rule handlers_of_registered)
  have "kind_of ev \<noteq> EvError \<or> handlers_of (register_all s regs) EvError \<noteq> []"
    using a by (auto simp: handlers_of_registered [OF manual fresh])
  then have "emit h (register_all s regs) ev
               = emit_handlers h (map (handler_for (kind_of ev)) ?ls) ev"
    using hs by (simp only: emit_handled)
  with emit_handlers_all [OF wf, of ?ls]
  show "\<exists>h' calls. emit h (register_all s regs) ev = Inr (h', calls)
          \<and> map fst calls = map snd (filter (\<lambda>(k, l). k = kind_of ev) regs)"
    by simp
next
  fix e
  assume a: "\<not> has_addEventListener s \<and> filter (\<lambda>(k, l). k = EvError) regs = []"
    and ev: "ev = NativeError e"
  from a have "handlers_of (register_all s regs) EvError = []"
    using fresh by (simp add: handlers_of_registered)
  then show "emit h (register_all s regs) ev = Inl e"
    unfolding ev by (rule emit_unhandled)
next
  assume "has_addEventListener s"
  then show "forwarded (register_all s regs) = forwarded s @ regs"
    by (simp add: register_all_native)
next
  assume "has_addEventListener s"
  then show "emitter (register_all s regs) = []"
    using fresh by (simp add: register_all_native)
qed

theorem bridge_listeners_accumulate_witness:
  "emitter \<lparr>has_addEventListener = False, forwarded = [], emitter = []\<rparr> = []
   \<and> wf_event [[1, 2]] (NativeMessage (JSArrayBuffer 0))
   \<and> (\<exists>h' calls.
         emit [[1, 2]]
           (addEventListener
              (addEventListener \<lparr>has_addEventListener = False, forwarded = [], emitter = []\<rparr>
                 EvMessage 1)
              EvMessage 2)
           (NativeMessage (JSArrayBuffer 0)) = Inr (h', calls)
         \<and> map fst calls = [1, 2])
   \<and> (\<exists>h' calls.
         emit [[1, 2]]
           (addEventListener
              (addEventListener \<lparr>has_addEventListener = False, forwarded = [], emitter = []\<rparr>
                 EvError 1)
              EvError 2)
           (NativeError (Error ''socket hang up'')) = Inr (h', calls)
         \<and> map fst calls = [1, 2])
   \<and> emit [[1, 2]]
       (addEventListener \<lparr>has_addEventListener = False, forwarded = [], emitter = []\<rparr>
          EvMessage 1)
       (NativeError (Error ''socket hang up'')) = Inl (Error ''socket hang up'')
   \<and> forwarded
       (addEventListener
          (addEventListener \<lparr>has_addEventListener = True, forwarded = [], emitter = []\<rparr>
             EvMessage 1)
          EvMessage 2) = [(EvMessage, 1), (EvMessage, 2)]"
  (is "?fresh \<and> ?wf \<and> ?manual \<and> ?errors \<and> ?unhandled \<and> ?native")
proof -
  have fresh: ?fresh by simp
  have fresh': "emitter \<lparr>has_addEventListener = True, forwarded = [], emitter = []\<rparr> = []"
    by simp
  have wf: ?wf by simp
  have wf': "wf_event [[1, 2]] (NativeError (Error ''socket hang up''))" by simp
  from bridge_listeners_accumulate [OF fresh wf, of "[(EvMessage, 1), (EvMessage, 2)]"]
  have manual: ?manual by (simp add: register_all_def)
  from bridge_listeners_accumulate [OF fresh wf', of "[(EvError, 1), (EvError, 2)]"]
  have errors: ?errors by (simp add: register_all_def)
  from bridge_listeners_accumulate [OF fresh wf', of "[(EvMessage, 1)]"]
  have unhandled: ?unhandled by (simp add: register_all_def)
  from bridge_listeners_accumulate [OF fresh' wf, of "[(EvMessage, 1), (EvMessage, 2)]"]
  have native: ?native by (simp add: register_all_def)
  from fresh wf manual errors unhandled native show ?thesis by blast
qed

text \<open>
  The claim as written, that the second listener replaces the first, fails: two
  listeners registered for \<^verbatim>\<open>message\<close> are both retained and both called, the first
  before the second.
\<close>

theorem second_listener_does_not_replace_first:
  "emit [] (addEventListener (addEventListener
            \<lparr>has_addEventListener = False, forwarded = [], emitter = []\<rparr> EvMessage 1) EvMessage 2)
          (NativeMessage (JSString ''hello''))
       = Inr ([], [(1, IsomorphicMessageEvent (JSString ''hello'')),
                   (2, IsomorphicMessageEvent (JSString ''hello''))])
   \<and> length (handlers_of (addEventListener (addEventListener
            \<lparr>has_addEventListener = False, forwarded = [], emitter = []\<rparr> EvMessage 1) EvMessage 2)
          EvMessage) = 2"
  by (simp add: emit_def handlers_of_def addEventListener_def socket_on_def)

section \<open>Properties of the Adapter Factory\<close>

lemma replace_first_absent: "\<not> occurs pat s \<Longrightarrow> replace_first pat rep s = s"
  by (induction s) simp_all

lemma replace_first_prefix:
  "replace_first ''wss://'' ''https://'' (''wss://'' @ rest) = ''https://'' @ rest"
  by simp

lemma isNodeRuntime_marker:
  "isNodeRuntime env = (process env = Some (Process (Some (ProcessRelease (Some ''node'')))))"
proof (cases "process env")
  case None
  then show ?thesis by (simp add: isNodeRuntime_def)
next
  case (Some p)
  obtain rel where p: "p = Process rel" by (cases p)
  show ?thesis
  proof (cases rel)
    case None
    with Some p show ?thesis by (simp add: isNodeRuntime_def)
  next
    case (Some r)
    obtain n where "r = ProcessRelease n" by (cases r)
    with \<open>process env = Some p\<close> p Some show ?thesis by (simp add: isNodeRuntime_def)
  qed
qed

text \<open>
  C6. Which variant the factory builds is decided by the two global markers in a fixed
  order: in every environment exactly one native construction is attempted, the edge one
  when \<^verbatim>\<open>WebSocketPair\<close> is defined (whatever \<^verbatim>\<open>process\<close> is), else the process-host
  one when \<^verbatim>\<open>process\<close> is defined and \<^verbatim>\<open>process.release?.name\<close> is \<^verbatim>\<open>"node"\<close>,
  else the generic one; and the first effect is the log line of that variant. Neither
  test has a failing branch: \<^verbatim>\<open>typeof\<close> accepts an undeclared global and the optional
  chaining accepts a process without \<^verbatim>\<open>release\<close>, so the decision is made in every
  environment, also when the construction that follows fails.
\<close>

theorem detection_order:
  "variants_built (getIsomorphicWebSocket env url opts)
     = [if WebSocketPair_defined env then EdgeSandbox
        else if process env = Some (Process (Some (ProcessRelease (Some ''node''))))
        then ProcessHost
        else Generic]
   \<and> hd (effects (getIsomorphicWebSocket env url opts))
     = (if WebSocketPair_defined env
        then Log Debug (Some url) ''Using Cloudflare Worker WebSocket implementation''
        else if process env = Some (Process (Some (ProcessRelease (Some ''node''))))
        then Log Debug (Some url) ''Using Node WebSocket implementation''
        else Log Warn None
               ''Falling back to global WebSocket; custom headers may not be applied'')"
  by (simp add: getIsomorphicWebSocket_def logged_def isCloudflareWorkerRuntime_def
        isNodeRuntime_marker
        variants_built_def createCloudflareWebSocket_def createNodeWebSocket_def
        createGlobalWebSocket_def List.map_filter_simps Let_def
        split: sum.splits option.splits)

theorem detection_order_witness:
  "variants_built
     (getIsomorphicWebSocket
        \<lparr>WebSocketPair_defined = True,
         process = Some (Process (Some (ProcessRelease (Some ''node'')))),
         fetch = (\<lambda>r. Inl (TypeError ''offline'')),
         NodeWebSocket = (\<lambda>u hs. Inl (Error ''refused'')),
         WebSocket = (\<lambda>u. Inl (Error ''refused''))\<rparr>
        ''wss://example.com/tts'' \<lparr>headers = None\<rparr>) = [EdgeSandbox]
   \<and> variants_built
     (getIsomorphicWebSocket
        \<lparr>WebSocketPair_defined = True,
         process = None,
         fetch = (\<lambda>r. Inl (TypeError ''offline'')),
         NodeWebSocket = (\<lambda>u hs. Inl (Error ''refused'')),
         WebSocket = (\<lambda>u. Inl (Error ''refused''))\<rparr>
        ''wss://example.com/tts'' \<lparr>headers = None\<rparr>) = [EdgeSandbox]
   \<and> variants_built
     (getIsomorphicWebSocket
        \<lparr>WebSocketPair_defined = False,
         process = Some (Process (Some (ProcessRelease (Some ''node'')))),
         fetch = (\<lambda>r. Inl (TypeError ''offline'')),
         NodeWebSocket = (\<lambda>u hs. Inl (Error ''refused'')),
         WebSocket = (\<lambda>u. Inl (Error ''refused''))\<rparr>
        ''wss://example.com/tts'' \<lparr>headers = None\<rparr>) = [ProcessHost]
   \<and> variants_built
     (getIsomorphicWebSocket
        \<lparr>WebSocketPair_defined = False,
         process = Some (Process (Some (ProcessRelease (Some ''io.js'')))),
         fetch = (\<lambda>r. Inl (TypeError ''offline'')),
         NodeWebSocket = (\<lambda>u hs. Inl (Error ''refused'')),
         WebSocket = (\<lambda>u. Inl (Error ''refused''))\<rparr>
        ''wss://example.com/tts'' \<lparr>headers = None\<rparr>) = [Generic]
   \<and> variants_built
     (getIsomorphicWebSocket
        \<lparr>WebSocketPair_defined = False,
         process = Some (Process (Some (ProcessRelease None))),
         fetch = (\<lambda>r. Inl (TypeError ''offline'')),
         NodeWebSocket = (\<lambda>u hs. Inl (Error ''refused'')),
         WebSocket = (\<lambda>u. Inl (Error ''refused''))\<rparr>
        ''wss://example.com/tts'' \<lparr>headers = None\<rparr>) = [Generic]
   \<and> variants_built
     (getIsomorphicWebSocket
        \<lparr>WebSocketPair_defined = False,
         process = Some (Process None),
         fetch = (\<lambda>r. Inl (TypeError ''offline'')),
         NodeWebSocket = (\<lambda>u hs. Inl (Error ''refused'')),
         WebSocket = (\<lambda>u. Inl (Error ''refused''))\<rparr>
        ''wss://example.com/tts'' \<lparr>headers = None\<rparr>) = [Generic]
   \<and> variants_built
     (getIsomorphicWebSocket
        \<lparr>WebSocketPair_defined = False,
         process = None,
         fetch = (\<lambda>r. Inl (TypeError ''offline'')),
         NodeWebSocket = (\<lambda>u hs. Inl (Error ''refused'')),
         WebSocket = (\<lambda>u. Inl (Error ''refused''))\<rparr>
        ''wss://example.com/tts'' \<lparr>headers = None\<rparr>) = [Generic]"
  using
    detection_order
      [of "\<lparr>WebSocketPair_defined = True,
            process = Some (Process (Some (ProcessRelease (Some ''node'')))),
            fetch = (\<lambda>r. Inl (TypeError ''offline'')),
            NodeWebSocket = (\<lambda>u hs. Inl (Error ''refused'')),
            WebSocket = (\<lambda>u. Inl (Error ''refused''))\<rparr>"
          "''wss://example.com/tts''" "\<lparr>headers = None\<rparr>"]
    detection_order
      [of "\<lparr>WebSocketPair_defined = True,
            process = None,
            fetch = (\<lambda>r. Inl (TypeError ''offline'')),
            NodeWebSocket = (\<lambda>u hs. Inl (Error ''refused'')),
            WebSocket = (\<lambda>u. Inl (Error ''refused''))\<rparr>"
          "''wss://example.com/tts''" "\<lparr>headers = None\<rparr>"]
    detection_order
      [of "\<lparr>WebSocketPair_defined = False,
            process = Some (Process (Some (ProcessRelease (Some ''node'')))),
            fetch = (\<lambda>r. Inl (TypeError ''offline'')),
            NodeWebSocket = (\<lambda>u hs. Inl (Error ''refused'')),
            WebSocket = (\<lambda>u. Inl (Error ''refused''))\<rparr>"
          "''wss://example.com/tts''" "\<lparr>headers = None\<rparr>"]
    detection_order
      [of "\<lparr>WebSocketPair_defined = False,
            process = Some (Process (Some (ProcessRelease (Some ''io.js'')))),
            fetch = (\<lambda>r. Inl (TypeError ''offline'')),
            NodeWebSocket = (\<lambda>u hs. Inl (Error ''refused'')),
            WebSocket = (\<lambda>u. Inl (Error ''refused''))\<rparr>"
          "''wss://example.com/tts''" "\<lparr>headers = None\<rparr>"]
    detection_order
      [of "\<lparr>WebSocketPair_defined = False,
            process = Some (Process (Some (ProcessRelease None))),
            fetch = (\<lambda>r. Inl (TypeError ''offline'')),
            NodeWebSocket = (\<lambda>u hs. Inl (Error ''refused'')),
            WebSocket = (\<lambda>u. Inl (Error ''refused''))\<rparr>"
          "''wss://example.com/tts''" "\<lparr>headers = None\<rparr>"]
    detection_order
      [of "\<lparr>WebSocketPair_defined = False,
            process = Some (Process None),
            fetch = (\<lambda>r. Inl (TypeError ''offline'')),
            NodeWebSocket = (\<lambda>u hs. Inl (Error ''refused'')),
            WebSocket = (\<lambda>u. Inl (Error ''refused''))\<rparr>"
          "''wss://example.com/tts''" "\<lparr>headers = None\<rparr>"]
    detection_order
      [of "\<lparr>WebSocketPair_defined = False,
            process = None,
            fetch = (\<lambda>r. Inl (TypeError ''offline'')),
            NodeWebSocket = (\<lambda>u hs. Inl (Error ''refused'')),
            WebSocket = (\<lambda>u. Inl (Error ''refused''))\<rparr>"
          "''wss://example.com/tts''" "\<lparr>headers = None\<rparr>"]
  by simp

text \<open>
  C7, as the code has it. On the edge path the factory issues exactly one request. Its
  address is the target address with the first occurrence of \<^verbatim>\<open>wss://\<close> replaced by
  \<^verbatim>\<open>https://\<close>: an address that starts with \<^verbatim>\<open>wss://\<close> starts with \<^verbatim>\<open>https://\<close>
  instead, and an address in which \<^verbatim>\<open>wss://\<close> does not occur is requested unchanged.
  Its headers are the configured headers with \<^verbatim>\<open>Upgrade\<close> set to \<^verbatim>\<open>websocket\<close>.
\<close>

theorem edge_request:
  assumes "isCloudflareWorkerRuntime env"
  shows "requests_of (getIsomorphicWebSocket env url opts)
           = [\<lparr>target = replace_first ''wss://'' ''https://'' url,
               init_headers = upgrade_headers opts\<rparr>]
       \<and> (\<forall>rest. url = ''wss://'' @ rest \<longrightarrow>
             replace_first ''wss://'' ''https://'' url = ''https://'' @ rest)
       \<and> (\<not> occurs ''wss://'' url \<longrightarrow> replace_first ''wss://'' ''https://'' url = url)
       \<and> map_of (upgrade_headers opts)
           = (map_of (case headers opts of None \<Rightarrow> [] | Some hs \<Rightarrow> hs))
               (''Upgrade'' \<mapsto> ''websocket'')"
proof -
  have "requests_of (getIsomorphicWebSocket env url opts)
           = [\<lparr>target = replace_first ''wss://'' ''https://'' url,
               init_headers = upgrade_headers opts\<rparr>]"
    using assms
    by (simp add: getIsomorphicWebSocket_def logged_def requests_of_def
          createCloudflareWebSocket_def List.map_filter_simps Let_def
          split: sum.splits option.splits)
  moreover have "replace_first ''wss://'' ''https://'' (''wss://'' @ rest) = ''https://'' @ rest"
    for rest by (rule replace_first_prefix)
  moreover have "\<not> occurs ''wss://'' url \<Longrightarrow> replace_first ''wss://'' ''https://'' url = url"
    by (rule replace_first_absent)
  moreover have "map_of (upgrade_headers opts)
           = (map_of (case headers opts of None \<Rightarrow> [] | Some hs \<Rightarrow> hs))
               (''Upgrade'' \<mapsto> ''websocket'')"
    by (simp add: upgrade_headers_def update_conv')
  ultimately show ?thesis by blast
qed

theorem edge_request_witness:
  "isCloudflareWorkerRuntime
     \<lparr>WebSocketPair_defined = True,
      process = Some (Process (Some (ProcessRelease (Some ''node'')))),
      fetch = (\<lambda>r. Inr \<lparr>status = 403, statusText = ''Forbidden'', webSocket = None\<rparr>),
      NodeWebSocket = (\<lambda>u hs. Inl (Error ''not called'')),
      WebSocket = (\<lambda>u. Inl (Error ''not called''))\<rparr>
   \<and> requests_of
       (getIsomorphicWebSocket
          \<lparr>WebSocketPair_defined = True,
           process = Some (Process (Some (ProcessRelease (Some ''node'')))),
           fetch = (\<lambda>r. Inr \<lparr>status = 403, statusText = ''Forbidden'', webSocket = None\<rparr>),
           NodeWebSocket = (\<lambda>u hs. Inl (Error ''not called'')),
           WebSocket = (\<lambda>u. Inl (Error ''not called''))\<rparr>
          ''wss://example.com/tts'' \<lparr>headers = Some [(''Origin'', ''chrome-extension://x'')]\<rparr>)
     = [\<lparr>target = ''https://example.com/tts'',
         init_headers = [(''Origin'', ''chrome-extension://x''), (''Upgrade'', ''websocket'')]\<rparr>]"
  (is "?edge \<and> ?concl")
proof -
  have edge: ?edge by (simp add: isCloudflareWorkerRuntime_def)
  from edge_request [OF edge, of "''wss://example.com/tts''"
      "\<lparr>headers = Some [(''Origin'', ''chrome-extension://x'')]\<rparr>"]
  have ?concl by (simp add: upgrade_headers_def)
  with edge show ?thesis by blast
qed

text \<open>
  The claim as written, for every target address, fails at an address with the
  \<^verbatim>\<open>ws://\<close> scheme: the request goes to the \<^verbatim>\<open>ws://\<close> address itself, not to the
  \<^verbatim>\<open>http://\<close> one.
\<close>

theorem edge_request_keeps_ws_scheme:
  "requests_of
     (getIsomorphicWebSocket
        \<lparr>WebSocketPair_defined = True,
         process = Some (Process (Some (ProcessRelease (Some ''node'')))),
         fetch = (\<lambda>r. Inr \<lparr>status = 403, statusText = ''Forbidden'', webSocket = None\<rparr>),
         NodeWebSocket = (\<lambda>u hs. Inl (Error ''not called'')),
         WebSocket = (\<lambda>u. Inl (Error ''not called''))\<rparr>
        ''ws://example.com/socket'' \<lparr>headers = None\<rparr>)
   = [\<lparr>target = ''ws://example.com/socket'', init_headers = [(''Upgrade'', ''websocket'')]\<rparr>]
   \<and> target \<lparr>target = ''ws://example.com/socket'',
              init_headers = [(''Upgrade'', ''websocket'')]\<rparr> \<noteq> ''http://example.com/socket''"
  by (simp add: getIsomorphicWebSocket_def isCloudflareWorkerRuntime_def logged_def
        requests_of_def createCloudflareWebSocket_def upgrade_headers_def
        List.map_filter_simps Let_def)

text \<open>
  C3, as the code has it. On the edge path, when the response of the request carries no
  paired socket, the factory rejects with a plain \<^verbatim>\<open>Error\<close> whose message is
  \<^verbatim>\<open>Server refused the WebSocket upgrade:\<close> followed by the status in decimal, a
  space and the status text. The status and the status text are carried in the message
  only: the \<^verbatim>\<open>status\<close> property of the error is undefined.
\<close>

theorem upgrade_refused:
  assumes "isCloudflareWorkerRuntime env"
    and "fetch env \<lparr>target = replace_first ''wss://'' ''https://'' url,
                    init_headers = upgrade_headers opts\<rparr> = Inr resp"
    and "webSocket resp = None"
  shows "\<exists>e. result (getIsomorphicWebSocket env url opts) = Inl e
           \<and> e = Error (''Server refused the WebSocket upgrade: ''
                         @ string_of_nat (status resp) @ '' '' @ statusText resp)
           \<and> error_property e ''message''
               = JSString (''Server refused the WebSocket upgrade: ''
                            @ string_of_nat (status resp) @ '' '' @ statusText resp)
           \<and> error_property e ''status'' = JSUndefined"
  using assms
  by (simp add: getIsomorphicWebSocket_def logged_def createCloudflareWebSocket_def
        error_property_def Let_def)

theorem upgrade_refused_witness:
  "isCloudflareWorkerRuntime
     \<lparr>WebSocketPair_defined = True,
      process = Some (Process (Some (ProcessRelease (Some ''node'')))),
      fetch = (\<lambda>r. Inr \<lparr>status = 403, statusText = ''Forbidden'', webSocket = None\<rparr>),
      NodeWebSocket = (\<lambda>u hs. Inl (Error ''not called'')),
      WebSocket = (\<lambda>u. Inl (Error ''not called''))\<rparr>
   \<and> fetch
       \<lparr>WebSocketPair_defined = True,
        process = Some (Process (Some (ProcessRelease (Some ''node'')))),
        fetch = (\<lambda>r. Inr \<lparr>status = 403, statusText = ''Forbidden'', webSocket = None\<rparr>),
        NodeWebSocket = (\<lambda>u hs. Inl (Error ''not called'')),
        WebSocket = (\<lambda>u. Inl (Error ''not called''))\<rparr>
       \<lparr>target = replace_first ''wss://'' ''https://'' ''wss://example.com/tts'',
        init_headers = upgrade_headers \<lparr>headers = None\<rparr>\<rparr>
     = Inr \<lparr>status = 403, statusText = ''Forbidden'', webSocket = None\<rparr>
   \<and> webSocket \<lparr>status = 403, statusText = ''Forbidden'', webSocket = None\<rparr> = None
   \<and> result
       (getIsomorphicWebSocket
          \<lparr>WebSocketPair_defined = True,
           process = Some (Process (Some (ProcessRelease (Some ''node'')))),
           fetch = (\<lambda>r. Inr \<lparr>status = 403, statusText = ''Forbidden'', webSocket = None\<rparr>),
           NodeWebSocket = (\<lambda>u hs. Inl (Error ''not called'')),
           WebSocket = (\<lambda>u. Inl (Error ''not called''))\<rparr>
          ''wss://example.com/tts'' \<lparr>headers = None\<rparr>)
     = Inl (Error ''Server refused the WebSocket upgrade: 403 Forbidden'')"
  (is "?edge \<and> ?resp \<and> ?none \<and> ?concl")
proof -
  have edge: ?edge by (simp add: isCloudflareWorkerRuntime_def)
  have resp: ?resp by simp
  have none: ?none by simp
  from upgrade_refused [OF edge resp none] have ?concl by (simp add: digit_char_def)
  with edge resp none show ?thesis by blast
qed

text \<open>
  The claim as written fails for a response with status 403: the rejection is an
  \<^verbatim>\<open>Error\<close> with the status inside its message, and its \<^verbatim>\<open>status\<close> field is
  undefined, not 403.
\<close>

theorem upgrade_refused_error_has_no_status_field:
  "result
     (getIsomorphicWebSocket
        \<lparr>WebSocketPair_defined = True,
         process = Some (Process (Some (ProcessRelease (Some ''node'')))),
         fetch = (\<lambda>r. Inr \<lparr>status = 403, statusText = ''Forbidden'', webSocket = None\<rparr>),
         NodeWebSocket = (\<lambda>u hs. Inl (Error ''not called'')),
         WebSocket = (\<lambda>u. Inl (Error ''not called''))\<rparr>
        ''wss://example.com/tts'' \<lparr>headers = None\<rparr>)
   = Inl (Error ''Server refused the WebSocket upgrade: 403 Forbidden'')
   \<and> error_property (Error ''Server refused the WebSocket upgrade: 403 Forbidden'') ''status''
       = JSUndefined
   \<and> error_property (Error ''Server refused the WebSocket upgrade: 403 Forbidden'') ''status''
       \<noteq> JSNumber 403"
  by (simp add: getIsomorphicWebSocket_def isCloudflareWorkerRuntime_def logged_def
        createCloudflareWebSocket_def error_property_def digit_char_def Let_def)

text \<open>
  C8. On the generic path with a non-empty headers mapping configured, the factory's
  effects are one warning, that custom headers may not be applied, and then the call of
  the \<^verbatim>\<open>WebSocket\<close> constructor with the address alone: exactly one warning is logged,
  whether the constructor returns or throws, and the outcome is the one of a call with no
  headers configured.
\<close>

theorem generic_path_warns_once:
  assumes "\<not> isCloudflareWorkerRuntime env" and "\<not> isNodeRuntime env"
    and "headers opts = Some hs" and "hs \<noteq> []"
  shows "effects (getIsomorphicWebSocket env url opts)
           = [Log Warn None
                ''Falling back to global WebSocket; custom headers may not be applied'',
              NewWebSocket url]
       \<and> length (filter is_warning (effects (getIsomorphicWebSocket env url opts))) = 1
       \<and> getIsomorphicWebSocket env url opts
           = getIsomorphicWebSocket env url \<lparr>headers = None\<rparr>"
  using assms
  by (simp add: getIsomorphicWebSocket_def logged_def createGlobalWebSocket_def
        split: sum.splits)

theorem generic_path_warns_once_witness:
  "\<not> isCloudflareWorkerRuntime
       \<lparr>WebSocketPair_defined = False,
        process = None,
        fetch = (\<lambda>r. Inl (TypeError ''not called'')),
        NodeWebSocket = (\<lambda>u hs. Inl (Error ''not called'')),
        WebSocket = (\<lambda>u. Inr \<lparr>peer = u, accepted = False\<rparr>)\<rparr>
   \<and> \<not> isNodeRuntime
       \<lparr>WebSocketPair_defined = False,
        process = None,
        fetch = (\<lambda>r. Inl (TypeError ''not called'')),
        NodeWebSocket = (\<lambda>u hs. Inl (Error ''not called'')),
        WebSocket = (\<lambda>u. Inr \<lparr>peer = u, accepted = False\<rparr>)\<rparr>
   \<and> headers \<lparr>headers = Some [(''Authorization'', ''Bearer t'')]\<rparr>
       = Some [(''Authorization'', ''Bearer t'')]
   \<and> [(''Authorization'', ''Bearer t'')] \<noteq> []
   \<and> effects
       (getIsomorphicWebSocket
          \<lparr>WebSocketPair_defined = False,
           process = None,
           fetch = (\<lambda>r. Inl (TypeError ''not called'')),
           NodeWebSocket = (\<lambda>u hs. Inl (Error ''not called'')),
           WebSocket = (\<lambda>u. Inr \<lparr>peer = u, accepted = False\<rparr>)\<rparr>
          ''wss://example.com/tts'' \<lparr>headers = Some [(''Authorization'', ''Bearer t'')]\<rparr>)
     = [Log Warn None ''Falling back to global WebSocket; custom headers may not be applied'',
        NewWebSocket ''wss://example.com/tts'']"
  (is "?a \<and> ?b \<and> ?c \<and> ?d \<and> ?concl")
proof -
  have a: ?a by (simp add: isCloudflareWorkerRuntime_def)
  have b: ?b by (simp add: isNodeRuntime_def)
  have c: ?c by simp
  have d: ?d by simp
  from generic_path_warns_once [OF a b c d, of "''wss://example.com/tts''"]
  have ?concl by blast
  with a b c d show ?thesis by blast
qed

text \<open>
  C10. On the generic path the warning is logged whatever the options are, also when no
  headers are configured: the warnings among the effects are exactly that one line.
\<close>

theorem generic_path_warns_unconditionally:
  assumes "\<not> isCloudflareWorkerRuntime env" and "\<not> isNodeRuntime env"
  shows "filter is_warning (effects (getIsomorphicWebSocket env url opts))
           = [Log Warn None
                ''Falling back to global WebSocket; custom headers may not be applied'']"
  using assms
  by (simp add: getIsomorphicWebSocket_def logged_def createGlobalWebSocket_def
        split: sum.splits)

theorem generic_path_warns_unconditionally_witness:
  "\<not> isCloudflareWorkerRuntime
       \<lparr>WebSocketPair_defined = False,
        process = None,
        fetch = (\<lambda>r. Inl (TypeError ''not called'')),
        NodeWebSocket = (\<lambda>u hs. Inl (Error ''not called'')),
        WebSocket = (\<lambda>u. Inr \<lparr>peer = u, accepted = False\<rparr>)\<rparr>
   \<and> \<not> isNodeRuntime
       \<lparr>WebSocketPair_defined = False,
        process = None,
        fetch = (\<lambda>r. Inl (TypeError ''not called'')),
        NodeWebSocket = (\<lambda>u hs. Inl (Error ''not called'')),
        WebSocket = (\<lambda>u. Inr \<lparr>peer = u, accepted = False\<rparr>)\<rparr>
   \<and> filter is_warning
       (effects
          (getIsomorphicWebSocket
             \<lparr>WebSocketPair_defined = False,
              process = None,
              fetch = (\<lambda>r. Inl (TypeError ''not called'')),
              NodeWebSocket = (\<lambda>u hs. Inl (Error ''not called'')),
              WebSocket = (\<lambda>u. Inr \<lparr>peer = u, accepted = False\<rparr>)\<rparr>
             ''wss://example.com/tts'' \<lparr>headers = None\<rparr>))
     = [Log Warn None ''Falling back to global WebSocket; custom headers may not be applied'']"
  (is "?a \<and> ?b \<and> ?concl")
proof -
  have a: ?a by (simp add: isCloudflareWorkerRuntime_def)
  have b: ?b by (simp add: isNodeRuntime_def)
  from generic_path_warns_unconditionally [OF a b] have ?concl .
  with a b show ?thesis by blast
qed

end
